theory Spec2Isabelle
  imports Main "HOL-Library.Word"
begin

unbundle bit_operations_syntax

section \<open>Data model (processor.h)\<close>

text \<open>
  The C integer types are words: \<open>uint8_t\<close> and \<open>int8_t\<close> are \<open>8 word\<close>,
  \<open>uint16_t\<close> and \<open>int16_t\<close> are \<open>16 word\<close>; the signed reading is \<open>sint\<close>,
  a widening of a signed value is \<open>scast\<close>, of an unsigned one \<open>ucast\<close>, and a
  narrowing keeps the low bits (\<open>ucast\<close>).

  The three arrays of the processor are total functions of the index. Every
  access to \<open>instr_mem\<close> and \<open>data_mem\<close> in the source sits behind a bounds
  check, which the model keeps; \<open>Register\<close> is indexed by the 6-bit fields
  that decode writes into the latch (see \<open>latch_in_range_process_cycle\<close>).
\<close>

type_synonym u8 = "8 word"
type_synonym u16 = "16 word"

definition FLAG_C :: u8 where "FLAG_C = 0x08"
definition FLAG_V :: u8 where "FLAG_V = 0x04"
definition FLAG_N :: u8 where "FLAG_N = 0x02"
definition FLAG_S :: u8 where "FLAG_S = 0x01"
definition FLAG_Z :: u8 where "FLAG_Z = 0x10"

text \<open>
  \<open>IF_ID_Reg\<close> has the fields instr, pc, valid. \<open>ID_EX_Reg\<close> has the same three
  and six more, so it is the record extension: the selectors \<open>instr\<close>, \<open>pc\<close> and
  \<open>valid\<close> read both latches.
\<close>

record IF_ID_Reg =
  instr :: u16
  pc :: u16
  valid :: bool

record ID_EX_Reg = IF_ID_Reg +
  opcode :: u8
  rs :: u8
  rt :: u8
  imm :: u16
  valueRS :: u8
  valueRT :: u8

record Processor =
  Register :: "nat \<Rightarrow> u8"
  SREG :: u8
  PC :: u16
  instr_mem :: "nat \<Rightarrow> u16"
  data_mem :: "nat \<Rightarrow> u8"
  IF_ID :: IF_ID_Reg
  ID_EX :: ID_EX_Reg
  EX_instr :: u16
  EX_pc :: u16
  EX_valid :: bool

section \<open>Data store (memory.c)\<close>

definition mem_read_data :: "Processor \<Rightarrow> u16 \<Rightarrow> u8" where
  "mem_read_data p addr = (if addr \<ge> 2048 then 0 else data_mem p (unat addr))"

definition mem_write_data :: "Processor \<Rightarrow> u16 \<Rightarrow> u8 \<Rightarrow> Processor" where
  "mem_write_data p addr data =
     (if addr \<ge> 2048 then p
      else p\<lparr>data_mem := (data_mem p)(unat addr := data)\<rparr>)"

section \<open>Pipeline (pipeline.c)\<close>

subsection \<open>Status flags\<close>

text \<open>
  \<open>update_flags\<close> clears SREG and sets the flags one after the other; the
  intermediate values of SREG are the let-bound \<open>s1\<close> .. \<open>s5\<close>. The operands are
  promoted to \<open>int\<close> before the arithmetic, so \<open>temp\<close> is the 16-bit image of
  the integer sum, or of the difference of the signed readings.
\<close>

definition update_flags :: "Processor \<Rightarrow> u8 \<Rightarrow> u8 \<Rightarrow> u8 \<Rightarrow> u8 \<Rightarrow> Processor" where
  "update_flags p result val1 val2 op =
     (let s0 = (0 :: u8);
          s1 = (if result = 0 then s0 OR FLAG_Z else s0);
          s2 = (if result AND 0x80 \<noteq> 0 then s1 OR FLAG_N else s1)
      in if op = 0 \<or> op = 1 then
           let temp = (if op = 0
                       then (word_of_int (uint val1 + uint val2) :: u16)
                       else (word_of_int (sint val1 - sint val2) :: u16));
               s3 = (if temp AND 0x100 \<noteq> 0 then s2 OR FLAG_C else s2);
               ovf = drop_bit 7 ((val1 XOR result) AND (val2 XOR result));
               s4 = (if ovf \<noteq> 0 then s3 OR FLAG_V else s3);
               s5 = (if (drop_bit 1 (s4 AND FLAG_N)) XOR (s4 AND FLAG_V) \<noteq> 0
                     then s4 OR FLAG_S else s4)
           in p\<lparr>SREG := s5\<rparr>
         else p\<lparr>SREG := s2\<rparr>)"

subsection \<open>Fetch\<close>

definition fetch :: "Processor \<Rightarrow> Processor" where
  "fetch p =
     (if PC p < 1024 then
        let instruction = instr_mem p (unat (PC p))
        in if instruction = 0 then p\<lparr>PC := 1024\<rparr>
           else p\<lparr>IF_ID := \<lparr>instr = instruction, pc = PC p, valid = True\<rparr>,
                  PC := PC p + 1\<rparr>
      else p)"

subsection \<open>Decode\<close>

text \<open>
  The low six bits go through \<open>(int16_t)((int8_t)(instruction & 0x3F))\<close>: a
  narrowing to 8 bits followed by a signed widening to 16. The field \<open>rt\<close> is
  a \<open>uint8_t\<close>, so the assignment narrows again.
\<close>

definition low6 :: "u16 \<Rightarrow> u16" where
  "low6 instruction = scast (ucast (instruction AND 0x3F) :: u8)"

definition decode :: "Processor \<Rightarrow> Processor" where
  "decode p =
     (if \<not> valid (IF_ID p) then p
      else
        let instruction = instr (IF_ID p);
            E_opcode = (ucast (drop_bit 12 instruction AND 0x0F) :: u8);
            E_rs = (ucast (drop_bit 6 instruction AND 0x3F) :: u8);
            imm_form = (E_opcode = 3 \<or> E_opcode = 4 \<or> E_opcode = 5 \<or> E_opcode = 10
                        \<or> E_opcode = 11 \<or> E_opcode = 8 \<or> E_opcode = 9);
            E_imm = (if imm_form then low6 instruction else 0);
            E_rt = (if imm_form then 0 else (ucast (low6 instruction) :: u8));
            E = \<lparr>instr = instruction, pc = pc (IF_ID p), valid = True,
                 opcode = E_opcode, rs = E_rs, rt = E_rt, imm = E_imm,
                 valueRS = Register p (unat E_rs), valueRT = Register p (unat E_rt)\<rparr>
        in p\<lparr>ID_EX := E, IF_ID := (IF_ID p)\<lparr>valid := False\<rparr>\<rparr>)"

subsection \<open>Execute\<close>

text \<open>
  The switch of \<open>execute\<close>, in the order of the source. The arithmetic is done
  on operands promoted to \<open>int\<close> and the result is narrowed to 8 bits; for the
  shifts the model writes the promotion out. (C leaves a shift by 32 or more
  undefined; the model shifts the unbounded integer.) Opcodes 11, 4 (not taken)
  and the default set \<open>flag\<close>, which skips write-back and \<open>update_flags\<close>
  together; 4 (taken) and 7 return before the latch is invalidated at the end,
  having invalidated it themselves.
\<close>

definition execute :: "Processor \<Rightarrow> Processor" where
  "execute p =
     (if \<not> valid (ID_EX p) then p
      else
        let op = opcode (ID_EX p);
            s = rs (ID_EX p);
            t = rt (ID_EX p);
            immediate = (ucast (imm (ID_EX p)) :: u8);
            val1 = valueRS (ID_EX p);
            val2 = (if op \<le> 2 \<or> op = 6 \<or> op = 7 then valueRT (ID_EX p) else immediate);
            done = (\<lambda>q. q\<lparr>ID_EX := (ID_EX q)\<lparr>valid := False\<rparr>\<rparr>);
            flush = (\<lambda>q. q\<lparr>IF_ID := (IF_ID q)\<lparr>valid := False\<rparr>,
                           ID_EX := (ID_EX q)\<lparr>valid := False\<rparr>\<rparr>);
            wb = (\<lambda>result.
                    done (update_flags
                            (if s \<noteq> 0 then p\<lparr>Register := (Register p)(unat s := result)\<rparr> else p)
                            result val1 val2 op))
        in if op = 0 then wb (val1 + val2)
           else if op = 1 then wb (val1 - val2)
           else if op = 2 then wb (val1 * val2)
           else if op = 3 then wb immediate
           else if op = 5 then wb (val1 AND val2)
           else if op = 6 then wb (val1 XOR val2)
           else if op = 8 then wb (word_of_int (push_bit (unat val2) (uint val1)))
           else if op = 9 then wb (word_of_int (drop_bit (unat val2) (sint val1)))
           else if op = 10 then wb (mem_read_data p (scast immediate))
           else if op = 11 then
             done (mem_write_data p (scast immediate) (Register p (unat s)))
           else if op = 4 then
             (if Register p (unat s) = 0
              then flush (p\<lparr>PC := pc (ID_EX p) + 1 + scast immediate\<rparr>)
              else done p)
           else if op = 7 then
             flush (p\<lparr>PC := push_bit 8 (ucast (Register p (unat s)) :: u16)
                             OR ucast (Register p (unat t))\<rparr>)
           else done p)"

subsection \<open>One cycle\<close>

definition process_cycle :: "Processor \<Rightarrow> Processor" where
  "process_cycle p =
     (let p1 = p\<lparr>EX_instr := instr (ID_EX p), EX_pc := pc (ID_EX p),
                 EX_valid := valid (ID_EX p)\<rparr>;
          p2 = execute p1;
          p3 = decode p2
      in if PC p3 < 1024 then fetch p3 else p3)"

subsection \<open>Encoding (memory.c, mem_load_program)\<close>

text \<open>
  The loader packs an instruction as
  \<open>(opcode << 12) | ((rs & 0x3F) << 6) | (x & 0x3F)\<close>, where \<open>x\<close> is the second
  register or the immediate; an immediate has gone through \<open>(uint8_t)value\<close>
  before, so \<open>-2\<close> arrives as 254.
\<close>

definition encode :: "u16 \<Rightarrow> u16 \<Rightarrow> u16 \<Rightarrow> u16" where
  "encode opc r x = push_bit 12 opc OR push_bit 6 (r AND 0x3F) OR (x AND 0x3F)"

section \<open>Auxiliary notions\<close>

text \<open>A flag is set when its bit of SREG is.\<close>

definition flag_set :: "u8 \<Rightarrow> Processor \<Rightarrow> bool" where
  "flag_set f p = (SREG p AND f \<noteq> 0)"

text \<open>
  A branch is taken by execute when the latch is valid and holds BR, or BEQZ
  with a zero in the live source register.
\<close>

definition branch_taken :: "Processor \<Rightarrow> bool" where
  "branch_taken p =
     (valid (ID_EX p) \<and>
      (opcode (ID_EX p) = 7 \<or>
       (opcode (ID_EX p) = 4 \<and> Register p (unat (rs (ID_EX p))) = 0)))"

text \<open>
  The first assignments of \<open>process_cycle\<close>, and its last statement, as
  functions of their own; \<open>cycle_steps\<close> is the cycle as the composition of
  the four steps.
\<close>

definition snapshot_EX :: "Processor \<Rightarrow> Processor" where
  "snapshot_EX p = p\<lparr>EX_instr := instr (ID_EX p), EX_pc := pc (ID_EX p),
                      EX_valid := valid (ID_EX p)\<rparr>"

definition fetch_if_below_bound :: "Processor \<Rightarrow> Processor" where
  "fetch_if_below_bound p = (if PC p < 1024 then fetch p else p)"

definition cycle_steps :: "Processor \<Rightarrow> Processor" where
  "cycle_steps = fetch_if_below_bound \<circ> decode \<circ> execute \<circ> snapshot_EX"

text \<open>
  The value \<open>update_flags\<close> leaves in SREG, as a function of the conditions
  it tests (result zero, result bit 7, opcode ADD or SUB, bit 8 of \<open>temp\<close>,
  \<open>ovf\<close> nonzero), and \<open>temp\<close> itself.
\<close>

definition sreg_of :: "bool \<Rightarrow> bool \<Rightarrow> bool \<Rightarrow> bool \<Rightarrow> bool \<Rightarrow> u8" where
  "sreg_of z n arith c v =
     (let s0 = (0 :: u8);
          s1 = (if z then s0 OR FLAG_Z else s0);
          s2 = (if n then s1 OR FLAG_N else s1)
      in if arith then
           let s3 = (if c then s2 OR FLAG_C else s2);
               s4 = (if v then s3 OR FLAG_V else s3);
               s5 = (if (drop_bit 1 (s4 AND FLAG_N)) XOR (s4 AND FLAG_V) \<noteq> 0
                     then s4 OR FLAG_S else s4)
           in s5
         else s2)"

definition temp_of :: "u8 \<Rightarrow> u8 \<Rightarrow> u8 \<Rightarrow> u16" where
  "temp_of op val1 val2 =
     (if op = 0 then word_of_int (uint val1 + uint val2)
      else word_of_int (sint val1 - sint val2))"

text \<open>
  The decode-execute latch is in range when, if valid, its two register
  indices are below 64, the size of the register file.
\<close>

definition latch_in_range :: "Processor \<Rightarrow> bool" where
  "latch_in_range p = (valid (ID_EX p) \<longrightarrow> rs (ID_EX p) < 64 \<and> rt (ID_EX p) < 64)"

text \<open>
  Concrete inputs: \<open>zeroed\<close> is the processor with every cell zero and every
  latch invalid; \<open>staged R i P\<close> has the register file \<open>R\<close> and, in the
  decode-execute latch, the instruction word \<open>i\<close> fetched at \<open>P\<close>, put there
  by decode.
\<close>

definition zeroed :: Processor where
  "zeroed = \<lparr>Register = (\<lambda>_. 0), SREG = 0, PC = 0,
              instr_mem = (\<lambda>_. 0), data_mem = (\<lambda>_. 0),
              IF_ID = \<lparr>instr = 0, pc = 0, valid = False\<rparr>,
              ID_EX = \<lparr>instr = 0, pc = 0, valid = False, opcode = 0, rs = 0, rt = 0,
                       imm = 0, valueRS = 0, valueRT = 0\<rparr>,
              EX_instr = 0, EX_pc = 0, EX_valid = False\<rparr>"

definition staged :: "(nat \<Rightarrow> u8) \<Rightarrow> u16 \<Rightarrow> u16 \<Rightarrow> Processor" where
  "staged R i P =
     decode (zeroed\<lparr>Register := R, IF_ID := \<lparr>instr = i, pc = P, valid = True\<rparr>\<rparr>)"

text \<open>
  Named inputs. \<open>br_flush_state\<close>: BR R1 R2 in the decode-execute latch
  (R1 = 1, R2 = 2) and MOVI R1 5 waiting in the fetch-decode latch.
  \<open>beqz_untaken_state\<close>: BEQZ R1 3 in the decode-execute latch with R1 = 7,
  and SREG holding the carry flag. \<open>beqz_back_program\<close>: the program counter
  at 5, where the instruction store holds BEQZ R0 -2 as the loader encodes it,
  between other instructions.
\<close>

definition br_flush_state :: Processor where
  "br_flush_state =
     (staged ((\<lambda>_. 0)(1 := 0x01, 2 := 0x02)) (encode 7 1 2) 9)
       \<lparr>IF_ID := \<lparr>instr = encode 3 1 5, pc = 10, valid = True\<rparr>\<rparr>"

definition beqz_untaken_state :: Processor where
  "beqz_untaken_state = (staged ((\<lambda>_. 0)(1 := 7)) (encode 4 1 3) 0)\<lparr>SREG := 0x08\<rparr>"

definition beqz_back_program :: Processor where
  "beqz_back_program =
     zeroed\<lparr>PC := 5,
            instr_mem := (\<lambda>_. 0)(4 := encode 3 1 1, 5 := encode 4 0 254,
                                  6 := encode 3 2 2, 68 := encode 3 3 3)\<rparr>"

section \<open>Basic facts\<close>

lemmas flags = FLAG_C_def FLAG_V_def FLAG_N_def FLAG_S_def FLAG_Z_def

lemmas stage_defs = staged_def decode_def zeroed_def low6_def Let_def

lemmas run_defs = stage_defs encode_def execute_def update_flags_def flags flag_set_def
  word_le_nat_alt word_less_nat_alt mem_read_data_def mem_write_data_def

subsection \<open>Decode\<close>

lemma six_bit_mask: "(0x3F :: u16) = mask 6"
  by (simp add: mask_eq_exp_minus_1)

text \<open>The two casts of decode leave the six bits as they are: no sign is extended.\<close>

lemma low6_mask: "low6 i = i AND 0x3F"
  unfolding low6_def six_bit_mask
  by (rule bit_word_eqI) (auto simp add: bit_simps)

lemma low6_rt: "(ucast (low6 i) :: u8) = ucast (i AND 0x3F)"
  unfolding low6_def six_bit_mask
  by (rule bit_word_eqI) (auto simp add: bit_simps)

lemma and_63_lt_64: "(ucast ((w :: u16) AND 0x3F) :: u8) < 64"
proof -
  have "(ucast (w AND mask 6) :: u8) = ucast w AND mask 6"
    by (rule bit_word_eqI) (auto simp add: bit_simps)
  moreover have "(ucast w :: u8) AND mask 6 < 2 ^ 6"
    by (rule and_mask_less') simp
  ultimately show ?thesis by (simp add: six_bit_mask)
qed

lemma decode_invalid: "\<not> valid (IF_ID p) \<Longrightarrow> decode p = p"
  by (simp add: decode_def)

lemma decode_indices_in_range:
  "valid (IF_ID p) \<Longrightarrow> rs (ID_EX (decode p)) < 64 \<and> rt (ID_EX (decode p)) < 64"
  by (simp add: decode_def Let_def low6_rt and_63_lt_64)

text \<open>Every immediate that decode writes into the latch is between 0 and 63.\<close>

lemma decode_imm_range:
  "valid (IF_ID p) \<Longrightarrow> imm (ID_EX (decode p)) \<le> 63"
  by (simp add: decode_def Let_def low6_mask word_and_le1)

lemma Register_decode: "Register (decode p) = Register p"
  by (simp add: decode_def Let_def)

subsection \<open>Fetch\<close>

lemma Register_fetch: "Register (fetch p) = Register p"
  by (simp add: fetch_def Let_def)

lemma ID_EX_fetch: "ID_EX (fetch p) = ID_EX p"
  by (simp add: fetch_def Let_def)

subsection \<open>Status flags\<close>

lemma SREG_update_flags:
  "SREG (update_flags p r a b op) =
     sreg_of (r = 0) (r AND 0x80 \<noteq> 0) (op = 0 \<or> op = 1)
       (temp_of op a b AND 0x100 \<noteq> 0)
       (drop_bit 7 ((a XOR r) AND (b XOR r)) \<noteq> 0)"
  by (simp add: update_flags_def sreg_of_def temp_of_def Let_def)

lemma update_flags_only_SREG:
  "update_flags p r a b op = p\<lparr>SREG := SREG (update_flags p r a b op)\<rparr>"
  by (simp add: update_flags_def Let_def)

lemma Register_update_flags: "Register (update_flags p r a b op) = Register p"
  by (simp add: update_flags_def Let_def)

lemma sreg_of_Z: "(sreg_of z n ar c v AND FLAG_Z \<noteq> 0) = z"
  by (cases z; cases n; cases ar; cases c; cases v) (simp_all add: sreg_of_def flags)

lemma sreg_of_N: "(sreg_of z n ar c v AND FLAG_N \<noteq> 0) = n"
  by (cases z; cases n; cases ar; cases c; cases v) (simp_all add: sreg_of_def flags)

lemma sreg_of_C: "(sreg_of z n ar c v AND FLAG_C \<noteq> 0) = (ar \<and> c)"
  by (cases z; cases n; cases ar; cases c; cases v) (simp_all add: sreg_of_def flags)

lemma sreg_of_V: "(sreg_of z n ar c v AND FLAG_V \<noteq> 0) = (ar \<and> v)"
  by (cases z; cases n; cases ar; cases c; cases v) (simp_all add: sreg_of_def flags)

text \<open>
  The test \<open>((SREG & FLAG_N) >> 1) ^ (SREG & FLAG_V)\<close> compares bit 0 with
  bit 2, so it is nonzero as soon as one of N and V is set: the sign flag is
  their disjunction.
\<close>

lemma sreg_of_S: "(sreg_of z n ar c v AND FLAG_S \<noteq> 0) = (ar \<and> (n \<or> v))"
  by (cases z; cases n; cases ar; cases c; cases v) (simp_all add: sreg_of_def flags)

lemma and_0x100: "((w :: u16) AND 0x100 \<noteq> 0) \<longleftrightarrow> bit w 8"
  using and_exp_eq_0_iff_not_bit [of w 8] by simp

lemma and_0x80: "((w :: u8) AND 0x80 \<noteq> 0) \<longleftrightarrow> bit w 7"
  using and_exp_eq_0_iff_not_bit [of w 7] by simp

lemma drop_bit_7_nonzero: "(drop_bit 7 (w :: u8) \<noteq> 0) \<longleftrightarrow> bit w 7"
proof
  assume "drop_bit 7 w \<noteq> 0"
  then obtain n where n: "bit (drop_bit 7 w) n"
    by (auto simp add: bit_eq_iff)
  then have b: "bit w (7 + n)" by (simp add: bit_drop_bit_eq)
  then have "7 + n < 8" using bit_imp_le_length [OF b] by simp
  then have "n = 0" by simp
  with b show "bit w 7" by simp
next
  assume "bit w 7"
  then have "bit (drop_bit 7 w) 0" by (simp add: bit_drop_bit_eq)
  then show "drop_bit 7 w \<noteq> 0" by auto
qed

lemma temp_bit8:
  "(temp_of op a b AND 0x100 \<noteq> 0) \<longleftrightarrow>
     (if op = 0 then bit (uint a + uint b) 8 else bit (sint a - sint b) 8)"
proof -
  have "(temp_of op a b AND 0x100 \<noteq> 0) \<longleftrightarrow> bit (temp_of op a b) 8"
    by (rule and_0x100)
  also have "\<dots> \<longleftrightarrow> (if op = 0 then bit (uint a + uint b) 8 else bit (sint a - sint b) 8)"
    unfolding temp_of_def by (simp only: bit_word_of_int_iff if_distrib [of "\<lambda>w. bit w 8"]) simp
  finally show ?thesis .
qed

lemma update_flags_Z:
  "flag_set FLAG_Z (update_flags p r a b op) \<longleftrightarrow> r = 0"
  unfolding flag_set_def SREG_update_flags sreg_of_Z ..

lemma update_flags_N:
  "flag_set FLAG_N (update_flags p r a b op) \<longleftrightarrow> bit r 7"
  unfolding flag_set_def SREG_update_flags sreg_of_N by (rule and_0x80)

lemma update_flags_C:
  "flag_set FLAG_C (update_flags p r a b op) \<longleftrightarrow>
     (op = 0 \<and> bit (uint a + uint b) 8) \<or> (op = 1 \<and> bit (sint a - sint b) 8)"
  unfolding flag_set_def SREG_update_flags sreg_of_C temp_bit8 by auto

lemma update_flags_V:
  "flag_set FLAG_V (update_flags p r a b op) \<longleftrightarrow>
     (op = 0 \<or> op = 1) \<and> bit ((a XOR r) AND (b XOR r)) 7"
  unfolding flag_set_def SREG_update_flags sreg_of_V drop_bit_7_nonzero ..

lemma update_flags_S:
  "flag_set FLAG_S (update_flags p r a b op) \<longleftrightarrow>
     (op = 0 \<or> op = 1) \<and>
     (flag_set FLAG_N (update_flags p r a b op) \<or> flag_set FLAG_V (update_flags p r a b op))"
  unfolding flag_set_def SREG_update_flags sreg_of_S sreg_of_N sreg_of_V by auto

lemmas flag_chars = update_flags_Z update_flags_N update_flags_C update_flags_V

lemma flag_set_upd_ID_EX: "flag_set f (q\<lparr>ID_EX := x\<rparr>) = flag_set f q"
  by (simp add: flag_set_def)

subsection \<open>Execute, opcode by opcode\<close>

lemma execute_invalid: "\<not> valid (ID_EX p) \<Longrightarrow> execute p = p"
  by (simp add: execute_def)

lemma execute_beqz_taken:
  "valid (ID_EX p) \<Longrightarrow> opcode (ID_EX p) = 4 \<Longrightarrow> Register p (unat (rs (ID_EX p))) = 0 \<Longrightarrow>
   execute p = p\<lparr>PC := pc (ID_EX p) + 1 + scast (ucast (imm (ID_EX p)) :: u8),
                 IF_ID := (IF_ID p)\<lparr>valid := False\<rparr>,
                 ID_EX := (ID_EX p)\<lparr>valid := False\<rparr>\<rparr>"
  by (simp add: execute_def Let_def)

lemma execute_beqz_not_taken:
  "valid (ID_EX p) \<Longrightarrow> opcode (ID_EX p) = 4 \<Longrightarrow> Register p (unat (rs (ID_EX p))) \<noteq> 0 \<Longrightarrow>
   execute p = p\<lparr>ID_EX := (ID_EX p)\<lparr>valid := False\<rparr>\<rparr>"
  by (simp add: execute_def Let_def)

lemma execute_br:
  "valid (ID_EX p) \<Longrightarrow> opcode (ID_EX p) = 7 \<Longrightarrow>
   execute p = p\<lparr>PC := push_bit 8 (ucast (Register p (unat (rs (ID_EX p)))) :: u16)
                          OR ucast (Register p (unat (rt (ID_EX p)))),
                 IF_ID := (IF_ID p)\<lparr>valid := False\<rparr>,
                 ID_EX := (ID_EX p)\<lparr>valid := False\<rparr>\<rparr>"
  by (simp add: execute_def Let_def)

lemma execute_default:
  "valid (ID_EX p) \<Longrightarrow> 12 \<le> opcode (ID_EX p) \<Longrightarrow>
   execute p = p\<lparr>ID_EX := (ID_EX p)\<lparr>valid := False\<rparr>\<rparr>"
  unfolding execute_def Let_def by (auto simp: word_le_nat_alt)

lemma execute_str:
  "valid (ID_EX p) \<Longrightarrow> opcode (ID_EX p) = 11 \<Longrightarrow>
   execute p =
     (mem_write_data p (scast (ucast (imm (ID_EX p)) :: u8)) (Register p (unat (rs (ID_EX p)))))
       \<lparr>ID_EX := (ID_EX p)\<lparr>valid := False\<rparr>\<rparr>"
  by (simp add: execute_def Let_def mem_write_data_def)

lemma execute_ldr:
  "valid (ID_EX p) \<Longrightarrow> opcode (ID_EX p) = 10 \<Longrightarrow> rs (ID_EX p) \<noteq> 0 \<Longrightarrow>
   Register (execute p) (unat (rs (ID_EX p))) =
     mem_read_data p (scast (ucast (imm (ID_EX p)) :: u8))"
  by (simp add: execute_def Let_def Register_update_flags)

lemma execute_add:
  "valid (ID_EX p) \<Longrightarrow> opcode (ID_EX p) = 0 \<Longrightarrow>
   execute p =
     (update_flags
        (if rs (ID_EX p) \<noteq> 0
         then p\<lparr>Register := (Register p)(unat (rs (ID_EX p)) := valueRS (ID_EX p) + valueRT (ID_EX p))\<rparr>
         else p)
        (valueRS (ID_EX p) + valueRT (ID_EX p)) (valueRS (ID_EX p)) (valueRT (ID_EX p)) 0)
     \<lparr>ID_EX := (ID_EX p)\<lparr>valid := False\<rparr>\<rparr>"
  by (simp add: execute_def Let_def update_flags_def)

lemma execute_sub:
  "valid (ID_EX p) \<Longrightarrow> opcode (ID_EX p) = 1 \<Longrightarrow>
   execute p =
     (update_flags
        (if rs (ID_EX p) \<noteq> 0
         then p\<lparr>Register := (Register p)(unat (rs (ID_EX p)) := valueRS (ID_EX p) - valueRT (ID_EX p))\<rparr>
         else p)
        (valueRS (ID_EX p) - valueRT (ID_EX p)) (valueRS (ID_EX p)) (valueRT (ID_EX p)) 1)
     \<lparr>ID_EX := (ID_EX p)\<lparr>valid := False\<rparr>\<rparr>"
  by (simp add: execute_def Let_def update_flags_def word_le_nat_alt)

lemma execute_add_facts:
  assumes "valid (ID_EX p)" "opcode (ID_EX p) = 0" "rs (ID_EX p) \<noteq> 0"
  shows "Register (execute p) (unat (rs (ID_EX p))) = valueRS (ID_EX p) + valueRT (ID_EX p)"
    and "flag_set f (execute p) =
         flag_set f (update_flags p (valueRS (ID_EX p) + valueRT (ID_EX p))
                       (valueRS (ID_EX p)) (valueRT (ID_EX p)) 0)"
  using assms
  by (simp_all add: execute_add Register_update_flags flag_set_def SREG_update_flags)

lemma execute_sub_facts:
  assumes "valid (ID_EX p)" "opcode (ID_EX p) = 1" "rs (ID_EX p) \<noteq> 0"
  shows "Register (execute p) (unat (rs (ID_EX p))) = valueRS (ID_EX p) - valueRT (ID_EX p)"
    and "flag_set f (execute p) =
         flag_set f (update_flags p (valueRS (ID_EX p) - valueRT (ID_EX p))
                       (valueRS (ID_EX p)) (valueRT (ID_EX p)) 1)"
  using assms
  by (simp_all add: execute_sub Register_update_flags flag_set_def SREG_update_flags)

lemma execute_sign_arith:
  "valid (ID_EX p) \<Longrightarrow> opcode (ID_EX p) = 0 \<or> opcode (ID_EX p) = 1 \<Longrightarrow>
   flag_set FLAG_S (execute p) \<longleftrightarrow> flag_set FLAG_N (execute p) \<or> flag_set FLAG_V (execute p)"
  by (auto simp add: execute_def Let_def flag_set_upd_ID_EX update_flags_S)

lemma execute_sign_other:
  "valid (ID_EX p) \<Longrightarrow> opcode (ID_EX p) \<in> {2, 3, 5, 6, 8, 9, 10} \<Longrightarrow>
   \<not> flag_set FLAG_S (execute p) \<and> \<not> flag_set FLAG_V (execute p) \<and> \<not> flag_set FLAG_C (execute p)"
  by (auto simp add: execute_def Let_def flag_set_upd_ID_EX update_flags_S update_flags_V
      update_flags_C)

text \<open>Whatever it does, execute leaves the decode-execute latch invalid.\<close>

lemma execute_invalidates: "\<not> valid (ID_EX (execute p))"
  by (simp add: execute_def Let_def update_flags_def mem_write_data_def)

lemma Register_execute_0: "Register (execute p) 0 = Register p 0"
  by (simp add: execute_def Let_def Register_update_flags mem_write_data_def unat_eq_0)

lemma high_low_byte:
  "ucast (drop_bit 8 (push_bit 8 (ucast (a::u8)) OR ucast (b::u8) :: u16)) = a \<and>
   (ucast (push_bit 8 (ucast (a::u8)) OR ucast (b::u8) :: u16) :: u8) = b"
proof
  show "ucast (drop_bit 8 (push_bit 8 (ucast a) OR ucast b :: u16)) = a"
    by (rule bit_word_eqI) (auto simp add: bit_simps dest: bit_imp_le_length)
  show "(ucast (push_bit 8 (ucast a) OR ucast b :: u16) :: u8) = b"
    by (rule bit_word_eqI) (auto simp add: bit_simps dest: bit_imp_le_length)
qed

subsection \<open>Branches\<close>

lemma execute_branch_taken:
  "branch_taken p \<Longrightarrow>
   \<not> valid (IF_ID (execute p)) \<and> ID_EX (execute p) = (ID_EX p)\<lparr>valid := False\<rparr>"
  unfolding branch_taken_def
  using execute_br [of p] execute_beqz_taken [of p] by auto

lemma branch_taken_snapshot: "branch_taken (snapshot_EX p) = branch_taken p"
  by (simp add: branch_taken_def snapshot_EX_def)

lemma ID_EX_snapshot: "ID_EX (snapshot_EX p) = ID_EX p"
  by (simp add: snapshot_EX_def)

subsection \<open>One cycle\<close>

lemma Register_process_cycle_0: "Register (process_cycle p) 0 = Register p 0"
  by (simp add: process_cycle_def Let_def Register_fetch Register_decode Register_execute_0)

text \<open>
  Index safety. After a cycle the decode-execute latch is either invalid or
  fresh from decode, so every register index execute reads from it in the
  next cycle is below 64.
\<close>

lemma latch_in_range_process_cycle: "latch_in_range (process_cycle p)"
proof -
  let ?q = "execute (p\<lparr>EX_instr := instr (ID_EX p), EX_pc := pc (ID_EX p),
                        EX_valid := valid (ID_EX p)\<rparr>)"
  have "latch_in_range (decode ?q)"
  proof (cases "valid (IF_ID ?q)")
    case True
    then show ?thesis by (simp add: latch_in_range_def decode_indices_in_range)
  next
    case False
    then show ?thesis by (simp add: latch_in_range_def decode_invalid execute_invalidates)
  qed
  then show ?thesis
    by (simp add: latch_in_range_def process_cycle_def Let_def ID_EX_fetch)
qed

subsection \<open>The address of LDR and STR\<close>

text \<open>
  The 8-bit signed \<open>immediate\<close> is converted to the \<open>uint16_t\<close> parameter
  \<open>addr\<close>: a non-negative one is below 128, a negative one at least 0xFF80.
\<close>

lemma sint_u8_bounds: "- 128 \<le> sint (i :: u8) \<and> sint i < 128"
  using sint_ge [of i] sint_lt [of i] by simp

lemma uint_scast_u8: "uint (scast (i :: u8) :: u16) = sint i mod 65536"
proof -
  have "(scast i :: u16) = word_of_int (sint i)" by simp
  then show ?thesis by (simp only: uint_word_of_int) simp
qed

lemma imm_addr_in_range: "sint (i :: u8) \<ge> 0 \<Longrightarrow> (scast i :: u16) < 2048"
  using sint_u8_bounds [of i] by (simp add: word_less_alt uint_scast_u8)

lemma imm_addr_out_of_range: "sint (i :: u8) < 0 \<Longrightarrow> (scast i :: u16) \<ge> 2048"
proof -
  assume a: "sint i < 0"
  have "(sint i + 65536) mod 65536 = sint i + 65536"
    using a sint_u8_bounds [of i] by (intro mod_pos_pos_trivial) simp_all
  then have "sint i mod 65536 = sint i + 65536"
    by simp
  then show ?thesis using sint_u8_bounds [of i] by (simp add: word_le_def uint_scast_u8)
qed

lemma mem_read_data_cong:
  "data_mem q = data_mem p \<Longrightarrow> mem_read_data q a = mem_read_data p a"
  by (simp add: mem_read_data_def)

lemma mem_read_write_same:
  "mem_read_data (mem_write_data p a v) a = (if a < 2048 then v else 0)"
  by (simp add: mem_read_data_def mem_write_data_def not_le [symmetric])

section \<open>The sign flag\<close>

text \<open>
  C1, as the code has it. When execute processes ADD or SUB and Negative and
  Overflow are not both set afterwards, the Sign flag is set if and only if
  Negative differs from Overflow. When it processes one of the other opcodes
  that reach \<open>update_flags\<close> (MUL, MOVI, ANDI, EOR, SAL, SAR, LDR), Sign,
  Overflow and Carry are clear, whatever Negative is: they are computed for
  ADD and SUB only.
\<close>

theorem C1_sign_flag_after_execute:
  "valid (ID_EX p) \<longrightarrow>
     ((opcode (ID_EX p) = 0 \<or> opcode (ID_EX p) = 1) \<and>
      \<not> (flag_set FLAG_N (execute p) \<and> flag_set FLAG_V (execute p)) \<longrightarrow>
        (flag_set FLAG_S (execute p) \<longleftrightarrow>
           (flag_set FLAG_N (execute p) \<noteq> flag_set FLAG_V (execute p)))) \<and>
     (opcode (ID_EX p) \<in> {2, 3, 5, 6, 8, 9, 10} \<longrightarrow>
        \<not> flag_set FLAG_S (execute p) \<and> \<not> flag_set FLAG_V (execute p) \<and>
        \<not> flag_set FLAG_C (execute p))"
proof (intro impI conjI)
  assume v: "valid (ID_EX p)"
  assume "(opcode (ID_EX p) = 0 \<or> opcode (ID_EX p) = 1) \<and>
      \<not> (flag_set FLAG_N (execute p) \<and> flag_set FLAG_V (execute p))"
  with execute_sign_arith [OF v]
  show "flag_set FLAG_S (execute p) \<longleftrightarrow>
           (flag_set FLAG_N (execute p) \<noteq> flag_set FLAG_V (execute p))"
    by blast
next
  assume v: "valid (ID_EX p)" and o: "opcode (ID_EX p) \<in> {2, 3, 5, 6, 8, 9, 10}"
  from execute_sign_other [OF v o]
  show "\<not> flag_set FLAG_S (execute p)" and "\<not> flag_set FLAG_V (execute p)"
    and "\<not> flag_set FLAG_C (execute p)"
    by simp_all
qed

text \<open>
  At ADD 200, 10 (result 210: Negative set, Overflow clear, Sign set) and at
  MUL 16, 8 (result 128: Sign clear).
\<close>

theorem C1_sign_flag_after_execute_witness:
  "valid (ID_EX (staged ((\<lambda>_. 0)(1 := 200, 2 := 10)) (encode 0 1 2) 0)) \<and>
   opcode (ID_EX (staged ((\<lambda>_. 0)(1 := 200, 2 := 10)) (encode 0 1 2) 0)) = 0 \<and>
   flag_set FLAG_N (execute (staged ((\<lambda>_. 0)(1 := 200, 2 := 10)) (encode 0 1 2) 0)) \<and>
   \<not> flag_set FLAG_V (execute (staged ((\<lambda>_. 0)(1 := 200, 2 := 10)) (encode 0 1 2) 0)) \<and>
   flag_set FLAG_S (execute (staged ((\<lambda>_. 0)(1 := 200, 2 := 10)) (encode 0 1 2) 0)) \<and>
   opcode (ID_EX (staged ((\<lambda>_. 0)(1 := 16, 2 := 8)) (encode 2 1 2) 0)) = 2 \<and>
   \<not> flag_set FLAG_S (execute (staged ((\<lambda>_. 0)(1 := 16, 2 := 8)) (encode 2 1 2) 0))"
  using C1_sign_flag_after_execute [of "staged ((\<lambda>_. 0)(1 := 200, 2 := 10)) (encode 0 1 2) 0"]
    C1_sign_flag_after_execute [of "staged ((\<lambda>_. 0)(1 := 16, 2 := 8)) (encode 2 1 2) 0"]
  by (simp add: run_defs)

text \<open>
  Where the statement "Sign is Negative XOR Overflow for ADD and SUB, and
  equals Negative for the other opcodes" fails. After MUL 16, 8 (result 128)
  Negative is set and Sign is clear. After ADD 100, 100 (result 200) Negative
  and Overflow are both set, and so is Sign.
\<close>

theorem C1_sign_flag_counterexample:
  "flag_set FLAG_N (execute (staged ((\<lambda>_. 0)(1 := 16, 2 := 8)) (encode 2 1 2) 0)) \<and>
   \<not> flag_set FLAG_S (execute (staged ((\<lambda>_. 0)(1 := 16, 2 := 8)) (encode 2 1 2) 0)) \<and>
   flag_set FLAG_N (execute (staged ((\<lambda>_. 0)(1 := 100, 2 := 100)) (encode 0 1 2) 0)) \<and>
   flag_set FLAG_V (execute (staged ((\<lambda>_. 0)(1 := 100, 2 := 100)) (encode 0 1 2) 0)) \<and>
   flag_set FLAG_S (execute (staged ((\<lambda>_. 0)(1 := 100, 2 := 100)) (encode 0 1 2) 0))"
  by (simp add: run_defs)

section \<open>Untaken BEQZ and undefined opcodes\<close>

text \<open>
  C2, as the code has it. When execute processes a BEQZ whose live source
  register is not 0, or an opcode of 12 or more, the only change is that the
  decode-execute latch becomes invalid: no register is written and the status
  register keeps its value, it is not recomputed.
\<close>

theorem C2_untaken_beqz_and_undefined_opcode:
  "valid (ID_EX p) \<and>
   ((opcode (ID_EX p) = 4 \<and> Register p (unat (rs (ID_EX p))) \<noteq> 0) \<or> 12 \<le> opcode (ID_EX p)) \<longrightarrow>
     execute p = p\<lparr>ID_EX := (ID_EX p)\<lparr>valid := False\<rparr>\<rparr> \<and>
     Register (execute p) = Register p \<and> SREG (execute p) = SREG p"
proof
  assume h: "valid (ID_EX p) \<and>
   ((opcode (ID_EX p) = 4 \<and> Register p (unat (rs (ID_EX p))) \<noteq> 0) \<or> 12 \<le> opcode (ID_EX p))"
  then have "execute p = p\<lparr>ID_EX := (ID_EX p)\<lparr>valid := False\<rparr>\<rparr>"
    using execute_beqz_not_taken [of p] execute_default [of p] by blast
  then show "execute p = p\<lparr>ID_EX := (ID_EX p)\<lparr>valid := False\<rparr>\<rparr> \<and>
     Register (execute p) = Register p \<and> SREG (execute p) = SREG p"
    by simp
qed

theorem C2_untaken_beqz_and_undefined_opcode_witness:
  "SREG (execute beqz_untaken_state) = 0x08 \<and>
   SREG (execute ((staged (\<lambda>_. 0) (encode 13 1 3) 0)\<lparr>SREG := 0x08\<rparr>)) = 0x08"
  using C2_untaken_beqz_and_undefined_opcode [of beqz_untaken_state]
    C2_untaken_beqz_and_undefined_opcode [of "(staged (\<lambda>_. 0) (encode 13 1 3) 0)\<lparr>SREG := 0x08\<rparr>"]
  by (simp add: beqz_untaken_state_def stage_defs encode_def word_le_nat_alt)

text \<open>
  Where the statement "the status register is recomputed as for any other
  fall-through opcode" fails: BEQZ R1 3 with R1 = 7 and the carry flag set
  beforehand. Execute leaves SREG at 0x08; \<open>update_flags\<close> on the result 0
  and the operands of the latch would have left 0x10 (Zero set, Carry clear).
\<close>

theorem C2_status_register_not_recomputed:
  "valid (ID_EX beqz_untaken_state) \<and> opcode (ID_EX beqz_untaken_state) = 4 \<and>
   Register beqz_untaken_state (unat (rs (ID_EX beqz_untaken_state))) = 7 \<and>
   SREG (execute beqz_untaken_state) = 0x08 \<and>
   SREG (update_flags beqz_untaken_state 0 (valueRS (ID_EX beqz_untaken_state))
           (ucast (imm (ID_EX beqz_untaken_state))) (opcode (ID_EX beqz_untaken_state))) = 0x10"
  by (simp add: beqz_untaken_state_def run_defs)

section \<open>The cycle\<close>

text \<open>
  C3. One call of \<open>process_cycle\<close> is the composition of four steps and
  nothing else: the snapshot of the decode-execute latch into the execute
  shadow record, execute, decode, and fetch if the program counter is below
  1024. When execute takes a branch, the fetch-decode latch is invalid after
  it, decode changes nothing, and the decode-execute latch at the end of the
  cycle is the old one invalidated: nothing was promoted into it.
\<close>

theorem C3_process_cycle_order:
  "process_cycle p = cycle_steps p \<and>
   (branch_taken p \<longrightarrow>
      \<not> valid (IF_ID (execute (snapshot_EX p))) \<and>
      decode (execute (snapshot_EX p)) = execute (snapshot_EX p) \<and>
      ID_EX (process_cycle p) = (ID_EX p)\<lparr>valid := False\<rparr>)"
proof (intro conjI impI)
  show c: "process_cycle p = cycle_steps p"
    by (simp add: process_cycle_def cycle_steps_def fetch_if_below_bound_def snapshot_EX_def Let_def)
  assume "branch_taken p"
  then have b: "branch_taken (snapshot_EX p)" by (simp add: branch_taken_snapshot)
  from execute_branch_taken [OF b]
  show i: "\<not> valid (IF_ID (execute (snapshot_EX p)))" by simp
  then show d: "decode (execute (snapshot_EX p)) = execute (snapshot_EX p)"
    by (rule decode_invalid)
  have "ID_EX (process_cycle p) = ID_EX (decode (execute (snapshot_EX p)))"
    by (simp add: c cycle_steps_def fetch_if_below_bound_def ID_EX_fetch)
  then show "ID_EX (process_cycle p) = (ID_EX p)\<lparr>valid := False\<rparr>"
    using execute_branch_taken [OF b] by (simp add: d ID_EX_snapshot)
qed

theorem C3_process_cycle_order_witness:
  "branch_taken br_flush_state \<and> valid (IF_ID br_flush_state) \<and>
   process_cycle br_flush_state = cycle_steps br_flush_state \<and>
   \<not> valid (ID_EX (process_cycle br_flush_state))"
proof -
  have b: "branch_taken br_flush_state"
    by (simp add: br_flush_state_def branch_taken_def stage_defs encode_def)
  have v: "valid (IF_ID br_flush_state)"
    by (simp add: br_flush_state_def)
  from C3_process_cycle_order [of br_flush_state] b
  have "process_cycle br_flush_state = cycle_steps br_flush_state"
    and "ID_EX (process_cycle br_flush_state) = (ID_EX br_flush_state)\<lparr>valid := False\<rparr>"
    by blast+
  then show ?thesis using b v by simp
qed

section \<open>BEQZ taken\<close>

text \<open>
  What execute does with a taken BEQZ is \<open>execute_beqz_taken\<close>: the program
  counter becomes the latch's pc + 1 + the latch's immediate read as a signed
  byte, both latches become invalid, nothing else changes. But the immediate
  decode puts into the latch is never negative (\<open>decode_imm_range\<close>), so the
  word of a BEQZ with immediate -2 branches forward by 63.
\<close>

lemma beqz_word_at_any_P:
  "PC p < 1024 \<Longrightarrow> instr_mem p (unat (PC p)) = 0x403E \<Longrightarrow> Register p 0 = 0 \<Longrightarrow>
   PC (execute (decode (fetch p))) = PC p + 63"
  by (simp add: fetch_def decode_def execute_def Let_def low6_def)

text \<open>
  C4, at BEQZ R0 -2 fetched at P = 5 with register 0 holding 0. The loader's
  encoding of the instruction is 0x403E; decode stores the immediate 62;
  execute sets the program counter to 68, not to P - 1 = 4; and after three
  cycles of the pipeline the instruction in the fetch-decode latch is the one
  fetched at 68.
\<close>

theorem C4_beqz_minus_two_goes_forward:
  "encode 4 0 254 = 0x403E \<and>
   imm (ID_EX (decode (fetch beqz_back_program))) = 62 \<and>
   PC (execute (decode (fetch beqz_back_program))) = 68 \<and>
   IF_ID (process_cycle (process_cycle (process_cycle beqz_back_program))) =
      \<lparr>instr = encode 3 3 3, pc = 68, valid = True\<rparr>"
  by (simp add: beqz_back_program_def process_cycle_def fetch_def run_defs)

section \<open>BR\<close>

text \<open>
  C5. When execute processes a valid BR, the program counter becomes the
  16-bit value whose high byte is the live value of the source register and
  whose low byte is the live value of the second register (0x0102 for 0x01 and
  0x02), both latches become invalid, and nothing else changes: no register,
  no flag, no data-store cell.
\<close>

theorem C5_execute_br_effect:
  "valid (ID_EX p) \<and> opcode (ID_EX p) = 7 \<longrightarrow>
     execute p = p\<lparr>PC := push_bit 8 (ucast (Register p (unat (rs (ID_EX p)))) :: u16)
                            OR ucast (Register p (unat (rt (ID_EX p)))),
                   IF_ID := (IF_ID p)\<lparr>valid := False\<rparr>,
                   ID_EX := (ID_EX p)\<lparr>valid := False\<rparr>\<rparr> \<and>
     (ucast (drop_bit 8 (PC (execute p))) :: u8) = Register p (unat (rs (ID_EX p))) \<and>
     (ucast (PC (execute p)) :: u8) = Register p (unat (rt (ID_EX p))) \<and>
     (Register p (unat (rs (ID_EX p))) = 0x01 \<and> Register p (unat (rt (ID_EX p))) = 0x02
        \<longrightarrow> PC (execute p) = 0x0102) \<and>
     \<not> valid (IF_ID (execute p)) \<and> \<not> valid (ID_EX (execute p)) \<and>
     Register (execute p) = Register p \<and> SREG (execute p) = SREG p \<and>
     data_mem (execute p) = data_mem p"
proof (intro impI)
  assume h: "valid (ID_EX p) \<and> opcode (ID_EX p) = 7"
  let ?a = "Register p (unat (rs (ID_EX p)))" and ?b = "Register p (unat (rt (ID_EX p)))"
  have e: "execute p = p\<lparr>PC := push_bit 8 (ucast ?a :: u16) OR ucast ?b,
                   IF_ID := (IF_ID p)\<lparr>valid := False\<rparr>,
                   ID_EX := (ID_EX p)\<lparr>valid := False\<rparr>\<rparr>"
    using h by (simp add: execute_br)
  have pc: "PC (execute p) = push_bit 8 (ucast ?a :: u16) OR ucast ?b"
    by (simp add: e)
  have ex: "?a = 0x01 \<and> ?b = 0x02 \<longrightarrow> PC (execute p) = 0x0102"
    by (simp add: pc)
  show "execute p = p\<lparr>PC := push_bit 8 (ucast ?a :: u16) OR ucast ?b,
                   IF_ID := (IF_ID p)\<lparr>valid := False\<rparr>,
                   ID_EX := (ID_EX p)\<lparr>valid := False\<rparr>\<rparr> \<and>
     (ucast (drop_bit 8 (PC (execute p))) :: u8) = ?a \<and>
     (ucast (PC (execute p)) :: u8) = ?b \<and>
     (?a = 0x01 \<and> ?b = 0x02 \<longrightarrow> PC (execute p) = 0x0102) \<and>
     \<not> valid (IF_ID (execute p)) \<and> \<not> valid (ID_EX (execute p)) \<and>
     Register (execute p) = Register p \<and> SREG (execute p) = SREG p \<and>
     data_mem (execute p) = data_mem p"
    using ex high_low_byte [of ?a ?b] by (simp add: e)
qed

theorem C5_execute_br_effect_witness:
  "PC (execute (staged ((\<lambda>_. 0)(1 := 0x01, 2 := 0x02)) (encode 7 1 2) 9)) = 0x0102 \<and>
   \<not> valid (IF_ID (execute (staged ((\<lambda>_. 0)(1 := 0x01, 2 := 0x02)) (encode 7 1 2) 9))) \<and>
   \<not> valid (ID_EX (execute (staged ((\<lambda>_. 0)(1 := 0x01, 2 := 0x02)) (encode 7 1 2) 9)))"
  using C5_execute_br_effect [of "staged ((\<lambda>_. 0)(1 := 0x01, 2 := 0x02)) (encode 7 1 2) 9"]
  by (simp add: stage_defs encode_def)

text \<open>
  C10. The target of a valid BR comes from the register file as it is when
  execute runs: after a write of \<open>v\<close> to register \<open>r\<close> since decode, the
  program counter is built from \<open>v\<close> wherever \<open>r\<close> is the source or the second
  register; and the operand values snapshotted into the latch have no
  influence on it.
\<close>

theorem C10_br_uses_live_registers:
  "valid (ID_EX p) \<and> opcode (ID_EX p) = 7 \<longrightarrow>
     PC (execute (p\<lparr>Register := (Register p)(r := v)\<rparr>)) =
       push_bit 8 (ucast (if unat (rs (ID_EX p)) = r then v
                          else Register p (unat (rs (ID_EX p)))) :: u16)
       OR ucast (if unat (rt (ID_EX p)) = r then v else Register p (unat (rt (ID_EX p)))) \<and>
     PC (execute (p\<lparr>ID_EX := (ID_EX p)\<lparr>valueRS := x, valueRT := y\<rparr>\<rparr>)) = PC (execute p)"
  by (simp add: execute_br)

text \<open>BR R1 R2 decoded with R1 = 1, R2 = 2; R1 becomes 3 before execute.\<close>

theorem C10_br_uses_live_registers_witness:
  "valueRS (ID_EX (staged ((\<lambda>_. 0)(1 := 0x01, 2 := 0x02)) (encode 7 1 2) 9)) = 0x01 \<and>
   PC (execute ((staged ((\<lambda>_. 0)(1 := 0x01, 2 := 0x02)) (encode 7 1 2) 9)
                  \<lparr>Register := ((\<lambda>_. 0)(1 := 0x01, 2 := 0x02))(1 := 0x03)\<rparr>)) = 0x0302"
  using C10_br_uses_live_registers
    [of "staged ((\<lambda>_. 0)(1 := 0x01, 2 := 0x02)) (encode 7 1 2) 9" 1 3]
  by (simp add: stage_defs encode_def)

section \<open>Fetch\<close>

text \<open>
  C6. When fetch runs: with the program counter at or beyond 1024 it changes
  nothing; below 1024 with the word 0 at that index it sets the program counter
  to 1024 and leaves the fetch-decode latch as it was; otherwise the latch
  becomes (that word, the current program counter, valid) and the program
  counter goes up by one (without wrapping).
\<close>

theorem C6_fetch_cases:
  "(PC p \<ge> 1024 \<longrightarrow> fetch p = p) \<and>
   (PC p < 1024 \<and> instr_mem p (unat (PC p)) = 0 \<longrightarrow>
      fetch p = p\<lparr>PC := 1024\<rparr> \<and> IF_ID (fetch p) = IF_ID p) \<and>
   (PC p < 1024 \<and> instr_mem p (unat (PC p)) \<noteq> 0 \<longrightarrow>
      IF_ID (fetch p) = \<lparr>instr = instr_mem p (unat (PC p)), pc = PC p, valid = True\<rparr> \<and>
      PC (fetch p) = PC p + 1 \<and> unat (PC (fetch p)) = unat (PC p) + 1 \<and>
      fetch p = p\<lparr>IF_ID := \<lparr>instr = instr_mem p (unat (PC p)), pc = PC p, valid = True\<rparr>,
                   PC := PC p + 1\<rparr>)"
proof (intro conjI impI)
  assume "PC p \<ge> 1024"
  then show "fetch p = p" by (simp add: fetch_def not_less [symmetric])
next
  assume a: "PC p < 1024 \<and> instr_mem p (unat (PC p)) = 0"
  then show "fetch p = p\<lparr>PC := 1024\<rparr>" by (simp add: fetch_def)
  from a show "IF_ID (fetch p) = IF_ID p" by (simp add: fetch_def)
next
  assume a: "PC p < 1024 \<and> instr_mem p (unat (PC p)) \<noteq> 0"
  then show "IF_ID (fetch p) = \<lparr>instr = instr_mem p (unat (PC p)), pc = PC p, valid = True\<rparr>"
    by (simp add: fetch_def Let_def)
  from a show "PC (fetch p) = PC p + 1" by (simp add: fetch_def Let_def)
  from a have "unat (PC p) < 1024" by (simp add: word_less_nat_alt)
  then have "unat (PC p + 1) = unat (PC p) + 1" by (simp add: unat_word_ariths)
  with a show "unat (PC (fetch p)) = unat (PC p) + 1" by (simp add: fetch_def Let_def)
  from a show "fetch p = p\<lparr>IF_ID := \<lparr>instr = instr_mem p (unat (PC p)), pc = PC p, valid = True\<rparr>,
                   PC := PC p + 1\<rparr>" by (simp add: fetch_def Let_def)
qed

theorem C6_fetch_cases_witness:
  "fetch (zeroed\<lparr>PC := 1024\<rparr>) = zeroed\<lparr>PC := 1024\<rparr> \<and>
   fetch (zeroed\<lparr>PC := 7\<rparr>) = zeroed\<lparr>PC := 1024\<rparr> \<and>
   IF_ID (fetch (zeroed\<lparr>PC := 7, instr_mem := (\<lambda>_. 0)(7 := 0x3045)\<rparr>))
     = \<lparr>instr = 0x3045, pc = 7, valid = True\<rparr> \<and>
   PC (fetch (zeroed\<lparr>PC := 7, instr_mem := (\<lambda>_. 0)(7 := 0x3045)\<rparr>)) = 8"
  using C6_fetch_cases [of "zeroed\<lparr>PC := 1024\<rparr>"] C6_fetch_cases [of "zeroed\<lparr>PC := 7\<rparr>"]
    C6_fetch_cases [of "zeroed\<lparr>PC := 7, instr_mem := (\<lambda>_. 0)(7 := 0x3045)\<rparr>"]
  by (simp add: zeroed_def word_less_nat_alt word_le_nat_alt)

section \<open>Data store\<close>

text \<open>
  C7. For an address below 2048, reading the data store after writing V at
  that address gives V; for an address of 2048 or more the write leaves the
  processor as it was and the read gives 0. Both functions are total: there is
  no error result. At the level of instructions: when STR has executed and LDR
  with the same immediate and a nonzero register index executes on the data
  store STR left, the register of LDR holds the value the register of STR had
  if the address is below 2048, and 0 otherwise.
\<close>

theorem C7_data_store_round_trip:
  "(a < 2048 \<longrightarrow> mem_read_data (mem_write_data p a v) a = v) \<and>
   (a \<ge> 2048 \<longrightarrow> mem_write_data p a v = p \<and> mem_read_data p a = 0) \<and>
   (valid (ID_EX p) \<and> opcode (ID_EX p) = 11 \<and>
    valid (ID_EX q) \<and> opcode (ID_EX q) = 10 \<and> rs (ID_EX q) \<noteq> 0 \<and>
    imm (ID_EX q) = imm (ID_EX p) \<and> data_mem q = data_mem (execute p) \<longrightarrow>
      Register (execute q) (unat (rs (ID_EX q))) =
        (if (scast (ucast (imm (ID_EX p)) :: u8) :: u16) < 2048
         then Register p (unat (rs (ID_EX p))) else 0))"
proof (intro conjI impI)
  assume "a < 2048"
  then show "mem_read_data (mem_write_data p a v) a = v"
    by (simp add: mem_read_write_same)
next
  assume "2048 \<le> a"
  then show "mem_write_data p a v = p" and "mem_read_data p a = 0"
    by (simp_all add: mem_read_data_def mem_write_data_def)
next
  let ?a = "scast (ucast (imm (ID_EX p)) :: u8) :: u16"
  let ?v = "Register p (unat (rs (ID_EX p)))"
  assume h: "valid (ID_EX p) \<and> opcode (ID_EX p) = 11 \<and>
    valid (ID_EX q) \<and> opcode (ID_EX q) = 10 \<and> rs (ID_EX q) \<noteq> 0 \<and>
    imm (ID_EX q) = imm (ID_EX p) \<and> data_mem q = data_mem (execute p)"
  then have "data_mem q = data_mem (mem_write_data p ?a ?v)"
    by (simp add: execute_str)
  then have "mem_read_data q ?a = mem_read_data (mem_write_data p ?a ?v) ?a"
    by (rule mem_read_data_cong)
  with h show "Register (execute q) (unat (rs (ID_EX q))) = (if ?a < 2048 then ?v else 0)"
    by (simp add: execute_ldr mem_read_write_same)
qed

text \<open>STR R1 10 with R1 = 7, then LDR R2 10 on the data store it left.\<close>

theorem C7_data_store_round_trip_witness:
  "mem_read_data (mem_write_data (staged ((\<lambda>_. 0)(1 := 7)) (encode 11 1 10) 0) 10 7) 10 = 7 \<and>
   mem_write_data zeroed 4000 7 = zeroed \<and> mem_read_data zeroed 4000 = 0 \<and>
   Register (execute (staged ((\<lambda>_. 0)(1 := 7)) (encode 10 2 10) 1
      \<lparr>data_mem := data_mem (execute (staged ((\<lambda>_. 0)(1 := 7)) (encode 11 1 10) 0))\<rparr>)) 2 = 7"
  using C7_data_store_round_trip [where a = 10
      and p = "staged ((\<lambda>_. 0)(1 := 7)) (encode 11 1 10) 0" and v = 7
      and q = "staged ((\<lambda>_. 0)(1 := 7)) (encode 10 2 10) 1
        \<lparr>data_mem := data_mem (execute (staged ((\<lambda>_. 0)(1 := 7)) (encode 11 1 10) 0))\<rparr>"]
    C7_data_store_round_trip [where a = 4000 and p = zeroed and v = 7]
  by (simp add: stage_defs encode_def word_le_nat_alt word_less_nat_alt)

section \<open>ADD and SUB\<close>

text \<open>
  C8. With a nonzero source register index, ADD writes the 8-bit wrap-around
  sum and SUB the 8-bit wrap-around difference of the two operand values, and
  Carry is bit 8 of the widened result: of the sum of the unsigned operands for
  ADD, of the difference of the signed operands for SUB. ADD of 5 and 3 gives
  8 with Carry, Overflow, Negative and Zero clear; ADD of 200 and 100 gives 44
  with Carry set; SUB of 3 and 5 gives 254 with Negative set and Zero clear.
\<close>

theorem C8_add_sub_wraparound_and_carry:
  "valid (ID_EX p) \<and> rs (ID_EX p) \<noteq> 0 \<longrightarrow>
     (opcode (ID_EX p) = 0 \<longrightarrow>
        Register (execute p) (unat (rs (ID_EX p))) = valueRS (ID_EX p) + valueRT (ID_EX p) \<and>
        unat (Register (execute p) (unat (rs (ID_EX p)))) =
          (unat (valueRS (ID_EX p)) + unat (valueRT (ID_EX p))) mod 256 \<and>
        (flag_set FLAG_C (execute p) \<longleftrightarrow>
           bit (uint (valueRS (ID_EX p)) + uint (valueRT (ID_EX p))) 8)) \<and>
     (opcode (ID_EX p) = 1 \<longrightarrow>
        Register (execute p) (unat (rs (ID_EX p))) = valueRS (ID_EX p) - valueRT (ID_EX p) \<and>
        (flag_set FLAG_C (execute p) \<longleftrightarrow>
           bit (sint (valueRS (ID_EX p)) - sint (valueRT (ID_EX p))) 8)) \<and>
     (opcode (ID_EX p) = 0 \<and> valueRS (ID_EX p) = 5 \<and> valueRT (ID_EX p) = 3 \<longrightarrow>
        Register (execute p) (unat (rs (ID_EX p))) = 8 \<and>
        \<not> flag_set FLAG_C (execute p) \<and> \<not> flag_set FLAG_V (execute p) \<and>
        \<not> flag_set FLAG_N (execute p) \<and> \<not> flag_set FLAG_Z (execute p)) \<and>
     (opcode (ID_EX p) = 0 \<and> valueRS (ID_EX p) = 200 \<and> valueRT (ID_EX p) = 100 \<longrightarrow>
        Register (execute p) (unat (rs (ID_EX p))) = 44 \<and> flag_set FLAG_C (execute p)) \<and>
     (opcode (ID_EX p) = 1 \<and> valueRS (ID_EX p) = 3 \<and> valueRT (ID_EX p) = 5 \<longrightarrow>
        Register (execute p) (unat (rs (ID_EX p))) = 254 \<and>
        flag_set FLAG_N (execute p) \<and> \<not> flag_set FLAG_Z (execute p))"
proof (intro impI conjI)
  assume h: "valid (ID_EX p) \<and> rs (ID_EX p) \<noteq> 0"
  {
    assume o: "opcode (ID_EX p) = 0"
    from h o show "Register (execute p) (unat (rs (ID_EX p))) = valueRS (ID_EX p) + valueRT (ID_EX p)"
      by (simp add: execute_add_facts)
    then show "unat (Register (execute p) (unat (rs (ID_EX p)))) =
          (unat (valueRS (ID_EX p)) + unat (valueRT (ID_EX p))) mod 256"
      by (simp add: unat_word_ariths)
    from h o show "flag_set FLAG_C (execute p) \<longleftrightarrow>
           bit (uint (valueRS (ID_EX p)) + uint (valueRT (ID_EX p))) 8"
      by (simp add: execute_add_facts update_flags_C)
  }
  {
    assume o: "opcode (ID_EX p) = 1"
    from h o show "Register (execute p) (unat (rs (ID_EX p))) = valueRS (ID_EX p) - valueRT (ID_EX p)"
      by (simp add: execute_sub_facts)
    from h o show "flag_set FLAG_C (execute p) \<longleftrightarrow>
           bit (sint (valueRS (ID_EX p)) - sint (valueRT (ID_EX p))) 8"
      by (simp add: execute_sub_facts update_flags_C)
  }
  {
    assume o: "opcode (ID_EX p) = 0 \<and> valueRS (ID_EX p) = 5 \<and> valueRT (ID_EX p) = 3"
    from h o show "Register (execute p) (unat (rs (ID_EX p))) = 8"
      by (simp add: execute_add_facts)
    from h o show "\<not> flag_set FLAG_C (execute p)" "\<not> flag_set FLAG_V (execute p)"
      "\<not> flag_set FLAG_N (execute p)" "\<not> flag_set FLAG_Z (execute p)"
      by (simp_all add: execute_add_facts flag_chars)
  }
  {
    assume o: "opcode (ID_EX p) = 0 \<and> valueRS (ID_EX p) = 200 \<and> valueRT (ID_EX p) = 100"
    from h o show "Register (execute p) (unat (rs (ID_EX p))) = 44"
      by (simp add: execute_add_facts)
    from h o show "flag_set FLAG_C (execute p)"
      by (simp add: execute_add_facts flag_chars)
  }
  {
    assume o: "opcode (ID_EX p) = 1 \<and> valueRS (ID_EX p) = 3 \<and> valueRT (ID_EX p) = 5"
    from h o show "Register (execute p) (unat (rs (ID_EX p))) = 254"
      by (simp add: execute_sub_facts)
    from h o show "flag_set FLAG_N (execute p)" "\<not> flag_set FLAG_Z (execute p)"
      by (simp_all add: execute_sub_facts flag_chars)
  }
qed

theorem C8_add_sub_wraparound_and_carry_witness:
  "Register (execute (staged ((\<lambda>_. 0)(1 := 5, 2 := 3)) (encode 0 1 2) 0)) 1 = 8 \<and>
   SREG (execute (staged ((\<lambda>_. 0)(1 := 5, 2 := 3)) (encode 0 1 2) 0)) = 0 \<and>
   Register (execute (staged ((\<lambda>_. 0)(1 := 200, 2 := 100)) (encode 0 1 2) 0)) 1 = 44 \<and>
   flag_set FLAG_C (execute (staged ((\<lambda>_. 0)(1 := 200, 2 := 100)) (encode 0 1 2) 0)) \<and>
   Register (execute (staged ((\<lambda>_. 0)(1 := 3, 2 := 5)) (encode 1 1 2) 0)) 1 = 254 \<and>
   flag_set FLAG_N (execute (staged ((\<lambda>_. 0)(1 := 3, 2 := 5)) (encode 1 1 2) 0)) \<and>
   \<not> flag_set FLAG_Z (execute (staged ((\<lambda>_. 0)(1 := 3, 2 := 5)) (encode 1 1 2) 0))"
  using C8_add_sub_wraparound_and_carry [of "staged ((\<lambda>_. 0)(1 := 5, 2 := 3)) (encode 0 1 2) 0"]
    C8_add_sub_wraparound_and_carry [of "staged ((\<lambda>_. 0)(1 := 200, 2 := 100)) (encode 0 1 2) 0"]
    C8_add_sub_wraparound_and_carry [of "staged ((\<lambda>_. 0)(1 := 3, 2 := 5)) (encode 1 1 2) 0"]
  by (simp add: run_defs)

section \<open>Register 0\<close>

text \<open>
  C9. Neither execute, nor a cycle, nor any number of cycles changes the cell
  of register index 0, in any state and for any instruction in the latch: the
  write-back is skipped when the index is 0. So when the cell holds 0 it holds
  0 after any number of cycles.
\<close>

theorem C9_register_zero_never_written:
  "Register (execute p) 0 = Register p 0 \<and>
   Register (process_cycle p) 0 = Register p 0 \<and>
   Register ((process_cycle ^^ n) p) 0 = Register p 0 \<and>
   (Register p 0 = 0 \<longrightarrow> Register ((process_cycle ^^ n) p) 0 = 0)"
proof -
  have "Register ((process_cycle ^^ n) p) 0 = Register p 0"
    by (induction n) (simp_all add: Register_process_cycle_0)
  then show ?thesis
    by (simp add: Register_execute_0 Register_process_cycle_0)
qed

text \<open>MOVI R0 5: in the latch, and as a program run for three cycles.\<close>

theorem C9_register_zero_never_written_witness:
  "Register (execute (staged (\<lambda>_. 0) (encode 3 0 5) 0)) 0 = 0 \<and>
   Register ((process_cycle ^^ 3) (zeroed\<lparr>instr_mem := (\<lambda>_. 0)(0 := encode 3 0 5)\<rparr>)) 0 = 0"
  using C9_register_zero_never_written [of "staged (\<lambda>_. 0) (encode 3 0 5) 0" 3]
    C9_register_zero_never_written [of "zeroed\<lparr>instr_mem := (\<lambda>_. 0)(0 := encode 3 0 5)\<rparr>" 3]
  by (simp add: stage_defs)

end
